theory Spec2Isabelle
  imports Complex_Main "HOL-Library.Word"
begin

section \<open>Data model\<close>

subsection \<open>Arithmetic on \<^verbatim>\<open>double\<close>\<close>

text \<open>
  The program computes on C \<^verbatim>\<open>double\<close> values; under the uncertainty-tracking runtime a
  \<^verbatim>\<open>double\<close> carries a distribution and every arithmetic operation propagates it.  The
  embedding therefore fixes no arithmetic: \<open>'d\<close> is the type of \<^verbatim>\<open>double\<close> values and the
  operations the source applies to them are the fields of a record passed to every function.
  A theorem about all such records holds for IEEE doubles, for distributional doubles, and for
  exact real arithmetic alike.
  \<^item> \<open>dlit\<close>: the value of a decimal constant of the source (\<^verbatim>\<open>2499.26\<close>, \<^verbatim>\<open>3\<close> converted
    to \<^verbatim>\<open>double\<close>);
  \<^item> \<open>dadd\<close>, \<open>dmul\<close>, \<open>ddiv\<close>: the operators \<^verbatim>\<open>+\<close>, \<^verbatim>\<open>*\<close>, \<^verbatim>\<open>/\<close> on doubles (division
    by zero is not an error for doubles: it yields whatever the arithmetic yields);
  \<^item> \<open>dpow\<close>: \<^verbatim>\<open>pow\<close> of \<^verbatim>\<open>math.h\<close>;
  \<^item> \<open>dofint\<close>: the conversion \<^verbatim>\<open>(double)\<close> of an integer value;
  \<^item> \<open>du64\<close>: the conversion \<^verbatim>\<open>(uint64_t)\<close> of a double.
\<close>

record 'd double_ops =
  dlit :: "real \<Rightarrow> 'd"
  dadd :: "'d \<Rightarrow> 'd \<Rightarrow> 'd"
  dmul :: "'d \<Rightarrow> 'd \<Rightarrow> 'd"
  ddiv :: "'d \<Rightarrow> 'd \<Rightarrow> 'd"
  dpow :: "'d \<Rightarrow> 'd \<Rightarrow> 'd"
  dofint :: "int \<Rightarrow> 'd"
  du64 :: "'d \<Rightarrow> 64 word"

subsection \<open>Constants of \<^verbatim>\<open>utilities-config.h\<close>\<close>

definition kSensorCalibrationConstant1 :: real where
  "kSensorCalibrationConstant1 = 2499.26"

definition kSensorCalibrationConstant2 :: real where
  "kSensorCalibrationConstant2 = 117682.20"

definition kSensorCalibrationConstant3 :: real where
  "kSensorCalibrationConstant3 = - 314364.00"

definition kDefaultInputDistributionHxferUniformDistLow :: real where
  "kDefaultInputDistributionHxferUniformDistLow = 0.010"

definition kDefaultInputDistributionHxferUniformDistHigh :: real where
  "kDefaultInputDistributionHxferUniformDistHigh = 0.050"

definition kDefaultInputDistributionTflowUniformDistLow :: real where
  "kDefaultInputDistributionTflowUniformDistLow = 293.0"

definition kDefaultInputDistributionTflowUniformDistHigh :: real where
  "kDefaultInputDistributionTflowUniformDistHigh = 294.0"

definition kDefaultInputDistributionT0UniformDistLow :: real where
  "kDefaultInputDistributionT0UniformDistLow = 273.0"

definition kDefaultInputDistributionT0UniformDistHigh :: real where
  "kDefaultInputDistributionT0UniformDistHigh = 273.5"

definition kDefaultInputDistributionPflowUniformDistLow :: real where
  "kDefaultInputDistributionPflowUniformDistLow = 420000.00"

definition kDefaultInputDistributionPflowUniformDistHigh :: real where
  "kDefaultInputDistributionPflowUniformDistHigh = 425000.00"

definition kDefaultInputDistributionP0UniformDistLow :: real where
  "kDefaultInputDistributionP0UniformDistLow = 400000.00"

definition kDefaultInputDistributionP0UniformDistHigh :: real where
  "kDefaultInputDistributionP0UniformDistHigh = 405000.00"

text \<open>The enumeration \<^verbatim>\<open>InputDistributionIndex\<close>: indices into the input array.\<close>

definition kInputDistributionIndexHxfer :: nat where
  "kInputDistributionIndexHxfer = 0"

definition kInputDistributionIndexTflow :: nat where
  "kInputDistributionIndexTflow = 1"

definition kInputDistributionIndexT0 :: nat where
  "kInputDistributionIndexT0 = 2"

definition kInputDistributionIndexPflow :: nat where
  "kInputDistributionIndexPflow = 3"

definition kInputDistributionIndexP0 :: nat where
  "kInputDistributionIndexP0 = 4"

definition kInputDistributionIndexMax :: nat where
  "kInputDistributionIndexMax = 5"

text \<open>The enumeration \<^verbatim>\<open>OutputDistributionIndex\<close>: indices into the output array.\<close>

definition kOutputDistributionIndexCalibratedMassFlowOutput :: nat where
  "kOutputDistributionIndexCalibratedMassFlowOutput = 0"

definition kOutputDistributionIndexCalibratedDifferentialPressureOutput :: nat where
  "kOutputDistributionIndexCalibratedDifferentialPressureOutput = 1"

definition kOutputDistributionIndexMax :: nat where
  "kOutputDistributionIndexMax = 2"

subsection \<open>Command line arguments\<close>

text \<open>
  \<^verbatim>\<open>CommandLineArguments\<close> is declared in \<^verbatim>\<open>utilities.h\<close>; the record has the fields of
  \<^verbatim>\<open>arguments.common\<close> that \<^verbatim>\<open>main.c\<close> reads.  \<^verbatim>\<open>outputSelect\<close> is compared with the
  members of \<^verbatim>\<open>OutputDistributionIndex\<close> and used as an array index; it is a natural
  number here, so that a value beyond \<^verbatim>\<open>kOutputDistributionIndexMax\<close> is an input of the
  model too.
\<close>

record CommonCommandLineArguments =
  outputSelect :: nat
  isMonteCarloMode :: bool
  numberOfMonteCarloIterations :: nat
  isTimingEnabled :: bool
  isBenchmarkingMode :: bool
  isOutputJSONMode :: bool
  isWriteToFileEnabled :: bool
  outputFilePath :: string

record CommandLineArguments =
  common :: CommonCommandLineArguments

section \<open>The calibration formula\<close>

text \<open>
  \<^verbatim>\<open>calculateSensorOutput\<close> (\<^verbatim>\<open>main.c\<close>, lines 43 to 85).  The input array holds doubles.
  A cell of the output array is \<open>None\<close> until a value is stored into it
  (\<^verbatim>\<open>main\<close> declares the array without an initialiser), and the local
  \<^verbatim>\<open>calibratedValue\<close> is \<open>None\<close> until one of the two branches assigns it: the function
  returns it as it is.  The result is the returned value and the output array after the
  call.
\<close>

definition massFlow :: "'d double_ops \<Rightarrow> 'd \<Rightarrow> 'd" where
  "massFlow ops h =
     dadd ops
       (dadd ops
          (dmul ops (dlit ops kSensorCalibrationConstant3) (dpow ops h (dlit ops 3)))
          (dmul ops (dlit ops kSensorCalibrationConstant2) (dpow ops h (dlit ops 2))))
       (dlit ops kSensorCalibrationConstant1)"

definition calculateSensorOutput ::
  "'d double_ops \<Rightarrow> CommandLineArguments \<Rightarrow> 'd list \<Rightarrow> 'd option list
     \<Rightarrow> 'd option \<times> 'd option list" where
  "calculateSensorOutput ops arguments inputDistributions outputDistributions =
     (let calculateAllOutputs = (outputSelect (common arguments) = kOutputDistributionIndexMax);
          h = inputDistributions ! kInputDistributionIndexHxfer;
          m = massFlow ops h;
          (calibratedValue, outputDistributions) =
            (if calculateAllOutputs \<or>
                outputSelect (common arguments) = kOutputDistributionIndexCalibratedMassFlowOutput
             then (Some m,
                   outputDistributions
                     [kOutputDistributionIndexCalibratedMassFlowOutput := Some m])
             else (None, outputDistributions))
      in
        if calculateAllOutputs \<or>
           outputSelect (common arguments) =
             kOutputDistributionIndexCalibratedDifferentialPressureOutput
        then
          (let Tflow = inputDistributions ! kInputDistributionIndexTflow;
               T0 = inputDistributions ! kInputDistributionIndexT0;
               Pflow = inputDistributions ! kInputDistributionIndexPflow;
               P0 = inputDistributions ! kInputDistributionIndexP0;
               calibratedValue = dmul ops (dmul ops m (ddiv ops Tflow T0)) (ddiv ops P0 Pflow)
           in (Some calibratedValue,
               outputDistributions
                 [kOutputDistributionIndexCalibratedDifferentialPressureOutput :=
                    Some calibratedValue]))
        else (calibratedValue, outputDistributions))"

text \<open>
  What a read of a cell gives: the value stored, and for a cell that was never assigned the
  indeterminate content of its storage, which no data of the program determines.  The
  caller of \<^verbatim>\<open>calculateSensorOutput\<close> receives the returned \<^verbatim>\<open>calibratedValue\<close> in this
  way.
\<close>

definition valueRead :: "'d \<Rightarrow> 'd option \<Rightarrow> 'd" where
  "valueRead indeterminate cell = (case cell of None \<Rightarrow> indeterminate | Some v \<Rightarrow> v)"

section \<open>The environment and setting the inputs\<close>

text \<open>
  The runtime, the C library and the helpers of \<^verbatim>\<open>utilities.h\<close> are not part of these
  sources; \<^verbatim>\<open>main.c\<close> calls them, and the embedding takes them as the fields of an
  environment.  \<open>'w\<close> is the state of the outside world (the sampler's state, the processor
  clock, the file system): a call that depends on it or changes it takes the state and
  returns the new one.
  \<^item> \<open>UxHwDoubleUniformDist low high\<close> samples a value from the uniform distribution
    between \<open>low\<close> and \<open>high\<close>;
  \<^item> \<open>clock\<close> reads the processor time and \<open>CLOCKS_PER_SEC\<close> is its unit;
  \<^item> \<open>SIZE_MAX\<close> is the largest value of \<^verbatim>\<open>size_t\<close> on the platform: arithmetic in
    \<^verbatim>\<open>size_t\<close> wraps around at \<open>SIZE_MAX + 1\<close>;
  \<^item> \<open>getCommandLineArguments\<close> is \<open>None\<close> when the C function returns a nonzero value;
  \<^item> \<open>calculateMeanAndVarianceOfDoubleSamples\<close> takes the pointer to the samples
    (\<open>None\<close> is \<^verbatim>\<open>NULL\<close>) and their number;
  \<^item> \<open>writeOutputDoubleDistributionsToCSV\<close> returns \<open>True\<close> when the C function returns a
    nonzero value.
\<close>

record 'd MeanAndVariance =
  mean :: 'd
  variance :: 'd

record ('d, 'w) environment =
  arithmetic :: "'d double_ops"
  UxHwDoubleUniformDist :: "'d \<Rightarrow> 'd \<Rightarrow> 'w \<Rightarrow> 'd \<times> 'w"
  clock :: "'w \<Rightarrow> int \<times> 'w"
  CLOCKS_PER_SEC :: int
  SIZE_MAX :: nat
  getCommandLineArguments :: "string list \<Rightarrow> CommandLineArguments option"
  calculateMeanAndVarianceOfDoubleSamples ::
    "'d option list option \<Rightarrow> nat \<Rightarrow> 'd MeanAndVariance"
  writeOutputDoubleDistributionsToCSV ::
    "string \<Rightarrow> 'd option list \<Rightarrow> string list \<Rightarrow> nat \<Rightarrow> 'w \<Rightarrow> bool \<times> 'w"

text \<open>\<^verbatim>\<open>sizeof(double)\<close>: a double has eight bytes.\<close>

definition sizeofDouble :: nat where
  "sizeofDouble = 8"

text \<open>\<^verbatim>\<open>setInputDistributionsViaUxHwCall\<close> (\<^verbatim>\<open>main.c\<close>, lines 92 to 115).\<close>

definition setInputDistributionsViaUxHwCall ::
  "('d, 'w) environment \<Rightarrow> 'd list \<Rightarrow> 'w \<Rightarrow> 'd list \<times> 'w" where
  "setInputDistributionsViaUxHwCall env inputDistributions w =
     (let ops = arithmetic env;
          (x, w) = UxHwDoubleUniformDist env
                     (dlit ops kDefaultInputDistributionHxferUniformDistLow)
                     (dlit ops kDefaultInputDistributionHxferUniformDistHigh) w;
          inputDistributions = inputDistributions [kInputDistributionIndexHxfer := x];
          (x, w) = UxHwDoubleUniformDist env
                     (dlit ops kDefaultInputDistributionTflowUniformDistLow)
                     (dlit ops kDefaultInputDistributionTflowUniformDistHigh) w;
          inputDistributions = inputDistributions [kInputDistributionIndexTflow := x];
          (x, w) = UxHwDoubleUniformDist env
                     (dlit ops kDefaultInputDistributionT0UniformDistLow)
                     (dlit ops kDefaultInputDistributionT0UniformDistHigh) w;
          inputDistributions = inputDistributions [kInputDistributionIndexT0 := x];
          (x, w) = UxHwDoubleUniformDist env
                     (dlit ops kDefaultInputDistributionPflowUniformDistLow)
                     (dlit ops kDefaultInputDistributionPflowUniformDistHigh) w;
          inputDistributions = inputDistributions [kInputDistributionIndexPflow := x];
          (x, w) = UxHwDoubleUniformDist env
                     (dlit ops kDefaultInputDistributionP0UniformDistLow)
                     (dlit ops kDefaultInputDistributionP0UniformDistHigh) w;
          inputDistributions = inputDistributions [kInputDistributionIndexP0 := x]
      in (inputDistributions, w))"

section \<open>The main program\<close>

text \<open>
  What \<^verbatim>\<open>main\<close> does to the outside is the list of its calls to the allocator, to
  \<^verbatim>\<open>printf\<close> and to the output helpers, in order, each with the values passed.  A value read
  from a variable that was never assigned is \<open>None\<close>.
\<close>

datatype 'd call =
    CheckedMalloc nat
  | PrintBenchmarking "'d option" "64 word option"
  | PrintCalibratedValueAndProbabilities "'d option" string string
  | PrintJSONFormattedOutput "'d option list option" "'d option list" "string list"
  | PrintCPUTimeUsed "'d option"
  | WriteOutputDoubleDistributionsToCSV string "'d option list" "string list" nat
  | SaveMonteCarloDoubleDataToDataDotOutFile "'d option list option" "64 word option" nat
  | Free "'d option list option"

datatype error = NullPointerDereference | IndexOutOfBounds

datatype exit_status = ExitZero | ExitCommonConstantReturnTypeError

text \<open>
  The local variables of \<^verbatim>\<open>main\<close>, with the state of the world and the calls made so far.
  A scalar declared without an initialiser is \<open>None\<close> until it is assigned;
  \<open>monteCarloOutputSamples\<close> is \<open>None\<close> while the pointer is \<^verbatim>\<open>NULL\<close>, and the block it
  points to is a list of cells, each \<open>None\<close> until a sample is stored.
\<close>

record ('d, 'w) main_state =
  calibratedSensorOutput :: "'d option"
  monteCarloOutputSamples :: "'d option list option"
  start :: "int option"
  endClock :: "int option"
  cpuTimeUsedSeconds :: "'d option"
  inputDistributions :: "'d list"
  outputDistributions :: "'d option list"
  meanAndVariance :: "'d MeanAndVariance option"
  world :: 'w
  calls :: "'d call list"

definition outputVariableNames :: "string list" where
  "outputVariableNames = [''Calibrated Mass Flow'', ''Calibrated Differential Pressure'']"

definition unitsOfMeasurement :: "string list" where
  "unitsOfMeasurement = [''sccm'', ''Pa'']"

text \<open>
  The declarations of lines 120 to 139.  \<open>inputDistributions0\<close> is the content of the
  input array at entry: the array has no initialiser, and every entry is overwritten before
  it is read.
\<close>

definition initialState :: "'d list \<Rightarrow> 'w \<Rightarrow> ('d, 'w) main_state" where
  "initialState inputDistributions0 w =
     \<lparr>calibratedSensorOutput = None,
      monteCarloOutputSamples = None,
      start = None,
      endClock = None,
      cpuTimeUsedSeconds = None,
      inputDistributions = inputDistributions0,
      outputDistributions = replicate kOutputDistributionIndexMax None,
      meanAndVariance = None,
      world = w,
      calls = []\<rparr>"

text \<open>
  Lines 149 to 155.  The number of bytes requested is the product
  \<^verbatim>\<open>numberOfMonteCarloIterations * sizeof(double)\<close> computed in \<^verbatim>\<open>size_t\<close>: it wraps
  around at \<open>SIZE_MAX + 1\<close>.  \<^verbatim>\<open>checkedMalloc\<close> returns a block of that many bytes, which
  has room for as many cells as doubles fit into it, none of them assigned.
\<close>

definition allocateSamples ::
  "('d, 'w) environment \<Rightarrow> CommandLineArguments \<Rightarrow> ('d, 'w) main_state \<Rightarrow> ('d, 'w) main_state" where
  "allocateSamples env arguments s =
     (if isMonteCarloMode (common arguments)
      then (let bytes = (numberOfMonteCarloIterations (common arguments) * sizeofDouble)
                          mod (SIZE_MAX env + 1)
            in s\<lparr>monteCarloOutputSamples := Some (replicate (bytes div sizeofDouble) None),
                 calls := calls s @ [CheckedMalloc bytes]\<rparr>)
      else s)"

text \<open>Lines 160 to 163.\<close>

definition startTiming ::
  "('d, 'w) environment \<Rightarrow> CommandLineArguments \<Rightarrow> ('d, 'w) main_state \<Rightarrow> ('d, 'w) main_state" where
  "startTiming env arguments s =
     (if isTimingEnabled (common arguments) \<or> isBenchmarkingMode (common arguments)
      then (let (t, w) = clock env (world s) in s\<lparr>start := Some t, world := w\<rparr>)
      else s)"

text \<open>
  The body of the loop of lines 165 to 183, at index \<open>i\<close>.  The store of line 181 goes
  through the pointer: it fails on \<^verbatim>\<open>NULL\<close> and beyond the end of the block.
\<close>

definition loopBody ::
  "('d, 'w) environment \<Rightarrow> CommandLineArguments \<Rightarrow> nat \<Rightarrow> ('d, 'w) main_state
     \<Rightarrow> error + ('d, 'w) main_state" where
  "loopBody env arguments i s =
     (let (inputs, w) = setInputDistributionsViaUxHwCall env (inputDistributions s) (world s);
          (calibratedValue, outputs) =
             calculateSensorOutput (arithmetic env) arguments inputs (outputDistributions s);
          s = s\<lparr>inputDistributions := inputs, world := w,
                calibratedSensorOutput := calibratedValue, outputDistributions := outputs\<rparr>
      in
        if isMonteCarloMode (common arguments)
        then (case monteCarloOutputSamples s of
                None \<Rightarrow> Inl NullPointerDereference
              | Some samples \<Rightarrow>
                  if i < length samples
                  then Inr (s\<lparr>monteCarloOutputSamples :=
                                 Some (samples [i := calibratedSensorOutput s])\<rparr>)
                  else Inl IndexOutOfBounds)
        else Inr s)"

function monteCarloLoop ::
  "('d, 'w) environment \<Rightarrow> CommandLineArguments \<Rightarrow> nat \<Rightarrow> ('d, 'w) main_state
     \<Rightarrow> error + ('d, 'w) main_state" where
  "monteCarloLoop env arguments i s =
     (if i < numberOfMonteCarloIterations (common arguments)
      then (case loopBody env arguments i s of
              Inl e \<Rightarrow> Inl e
            | Inr s' \<Rightarrow> monteCarloLoop env arguments (Suc i) s')
      else Inr s)"
  by pat_completeness auto
termination
  by (relation "measure (\<lambda>(env, arguments, i, s).
        numberOfMonteCarloIterations (common arguments) - i)") auto

text \<open>Lines 189 to 195.\<close>

definition aggregateSamples ::
  "('d, 'w) environment \<Rightarrow> CommandLineArguments \<Rightarrow> ('d, 'w) main_state \<Rightarrow> ('d, 'w) main_state" where
  "aggregateSamples env arguments s =
     (if isMonteCarloMode (common arguments)
      then (let mv = calculateMeanAndVarianceOfDoubleSamples env
                       (monteCarloOutputSamples s)
                       (numberOfMonteCarloIterations (common arguments))
            in s\<lparr>meanAndVariance := Some mv, calibratedSensorOutput := Some (mean mv)\<rparr>)
      else s)"

text \<open>Lines 200 to 204.\<close>

definition stopTiming ::
  "('d, 'w) environment \<Rightarrow> CommandLineArguments \<Rightarrow> ('d, 'w) main_state \<Rightarrow> ('d, 'w) main_state" where
  "stopTiming env arguments s =
     (if isTimingEnabled (common arguments) \<or> isBenchmarkingMode (common arguments)
      then (let (t, w) = clock env (world s);
                ops = arithmetic env
            in s\<lparr>endClock := Some t,
                 cpuTimeUsedSeconds :=
                   map_option
                     (\<lambda>t0. ddiv ops (dofint ops (t - t0)) (dofint ops (CLOCKS_PER_SEC env)))
                     (start s),
                 world := w\<rparr>)
      else s)"

text \<open>Lines 120 to 163: the state in which the loop starts.\<close>

definition stateBeforeLoop ::
  "('d, 'w) environment \<Rightarrow> CommandLineArguments \<Rightarrow> 'd list \<Rightarrow> 'w \<Rightarrow> ('d, 'w) main_state" where
  "stateBeforeLoop env arguments inputDistributions0 w =
     startTiming env arguments
       (allocateSamples env arguments (initialState inputDistributions0 w))"

text \<open>Lines 149 to 204: everything before the results are reported.\<close>

definition computePhase ::
  "('d, 'w) environment \<Rightarrow> CommandLineArguments \<Rightarrow> 'd list \<Rightarrow> 'w
     \<Rightarrow> error + ('d, 'w) main_state" where
  "computePhase env arguments inputDistributions0 w =
     (case monteCarloLoop env arguments 0
             (stateBeforeLoop env arguments inputDistributions0 w) of
        Inl e \<Rightarrow> Inl e
      | Inr s \<Rightarrow> Inr (stopTiming env arguments (aggregateSamples env arguments s)))"

text \<open>The expression \<^verbatim>\<open>(uint64_t)(cpuTimeUsedSeconds*1000000)\<close> of lines 213 and 283.\<close>

definition cpuTimeUsedMicroseconds :: "'d double_ops \<Rightarrow> 'd option \<Rightarrow> 64 word option" where
  "cpuTimeUsedMicroseconds ops seconds =
     map_option (\<lambda>t. du64 ops (dmul ops t (dlit ops 1000000))) seconds"

text \<open>Line 213.\<close>

definition printBenchmarking ::
  "('d, 'w) environment \<Rightarrow> ('d, 'w) main_state \<Rightarrow> ('d, 'w) main_state" where
  "printBenchmarking env s =
     s\<lparr>calls := calls s @
          [PrintBenchmarking (calibratedSensorOutput s)
             (cpuTimeUsedMicroseconds (arithmetic env) (cpuTimeUsedSeconds s))]\<rparr>"

text \<open>
  Lines 220 to 249.  With one output selected, \<^verbatim>\<open>outputSelect\<close> indexes the two arrays of
  names and units, which have \<^verbatim>\<open>kOutputDistributionIndexMax\<close> entries.
\<close>

definition printResults ::
  "CommandLineArguments \<Rightarrow> ('d, 'w) main_state \<Rightarrow> error + ('d, 'w) main_state" where
  "printResults arguments s =
     (if \<not> isOutputJSONMode (common arguments)
      then
        (if outputSelect (common arguments) = kOutputDistributionIndexMax
         then Inr (s\<lparr>calls := calls s @
                 map (\<lambda>i. PrintCalibratedValueAndProbabilities
                            (outputDistributions s ! i)
                            (outputVariableNames ! i)
                            (unitsOfMeasurement ! i))
                     [0 ..< kOutputDistributionIndexMax]\<rparr>)
         else if outputSelect (common arguments) < kOutputDistributionIndexMax
         then Inr (s\<lparr>calls := calls s @
                 [PrintCalibratedValueAndProbabilities
                    (calibratedSensorOutput s)
                    (outputVariableNames ! outputSelect (common arguments))
                    (unitsOfMeasurement ! outputSelect (common arguments))]\<rparr>)
         else Inl IndexOutOfBounds)
      else Inr (s\<lparr>calls := calls s @
              [PrintJSONFormattedOutput (monteCarloOutputSamples s)
                 (outputDistributions s) outputVariableNames]\<rparr>))"

text \<open>Lines 254 to 257.\<close>

definition printTiming ::
  "CommandLineArguments \<Rightarrow> ('d, 'w) main_state \<Rightarrow> ('d, 'w) main_state" where
  "printTiming arguments s =
     (if isTimingEnabled (common arguments)
      then s\<lparr>calls := calls s @ [PrintCPUTimeUsed (cpuTimeUsedSeconds s)]\<rparr>
      else s)"

text \<open>
  Lines 262 to 272: the state after the call and whether \<^verbatim>\<open>main\<close> returns
  \<^verbatim>\<open>kCommonConstantReturnTypeError\<close> at line 270.
\<close>

definition writeOutputData ::
  "('d, 'w) environment \<Rightarrow> CommandLineArguments \<Rightarrow> ('d, 'w) main_state
     \<Rightarrow> ('d, 'w) main_state \<times> bool" where
  "writeOutputData env arguments s =
     (if isWriteToFileEnabled (common arguments)
      then (let (failed, w) =
                  writeOutputDoubleDistributionsToCSV env
                    (outputFilePath (common arguments)) (outputDistributions s)
                    outputVariableNames kOutputDistributionIndexMax (world s)
            in (s\<lparr>world := w,
                   calls := calls s @
                     [WriteOutputDoubleDistributionsToCSV
                        (outputFilePath (common arguments)) (outputDistributions s)
                        outputVariableNames kOutputDistributionIndexMax]\<rparr>,
                failed))
      else (s, False))"

text \<open>Lines 279 to 287.\<close>

definition saveAndFree ::
  "('d, 'w) environment \<Rightarrow> CommandLineArguments \<Rightarrow> ('d, 'w) main_state \<Rightarrow> ('d, 'w) main_state" where
  "saveAndFree env arguments s =
     (if isMonteCarloMode (common arguments)
      then s\<lparr>calls := calls s @
               [SaveMonteCarloDoubleDataToDataDotOutFile
                  (monteCarloOutputSamples s)
                  (cpuTimeUsedMicroseconds (arithmetic env) (cpuTimeUsedSeconds s))
                  (numberOfMonteCarloIterations (common arguments)),
                Free (monteCarloOutputSamples s)]\<rparr>
      else s)"

text \<open>Lines 206 to 289: reporting, from the state that the computation leaves.\<close>

definition reportPhase ::
  "('d, 'w) environment \<Rightarrow> CommandLineArguments \<Rightarrow> ('d, 'w) main_state
     \<Rightarrow> error + ('d, 'w) main_state \<times> exit_status" where
  "reportPhase env arguments s =
     (if isBenchmarkingMode (common arguments)
      then Inr (saveAndFree env arguments (printBenchmarking env s), ExitZero)
      else
        (case printResults arguments s of
           Inl e \<Rightarrow> Inl e
         | Inr s \<Rightarrow>
             (let (s, failed) = writeOutputData env arguments (printTiming arguments s)
              in if failed then Inr (s, ExitCommonConstantReturnTypeError)
                 else Inr (saveAndFree env arguments s, ExitZero))))"

text \<open>\<^verbatim>\<open>main\<close> once the arguments are parsed (lines 149 to 289), and \<^verbatim>\<open>main\<close> itself.\<close>

definition mainBody ::
  "('d, 'w) environment \<Rightarrow> CommandLineArguments \<Rightarrow> 'd list \<Rightarrow> 'w
     \<Rightarrow> error + ('d, 'w) main_state \<times> exit_status" where
  "mainBody env arguments inputDistributions0 w =
     (case computePhase env arguments inputDistributions0 w of
        Inl e \<Rightarrow> Inl e
      | Inr s \<Rightarrow> reportPhase env arguments s)"

definition main ::
  "('d, 'w) environment \<Rightarrow> string list \<Rightarrow> 'd list \<Rightarrow> 'w
     \<Rightarrow> error + ('d, 'w) main_state \<times> exit_status" where
  "main env argv inputDistributions0 w =
     (case getCommandLineArguments env argv of
        None \<Rightarrow> Inr (initialState inputDistributions0 w, ExitCommonConstantReturnTypeError)
      | Some arguments \<Rightarrow> mainBody env arguments inputDistributions0 w)"

text \<open>What a run of \<^verbatim>\<open>main\<close> shows outside: the calls it made and the value it returned.\<close>

definition callsMade :: "error + ('d, 'w) main_state \<times> exit_status \<Rightarrow> 'd call list" where
  "callsMade r = (case r of Inl e \<Rightarrow> [] | Inr (s, status) \<Rightarrow> calls s)"

definition exitStatus :: "error + ('d, 'w) main_state \<times> exit_status \<Rightarrow> exit_status option" where
  "exitStatus r = (case r of Inl e \<Rightarrow> None | Inr (s, status) \<Rightarrow> Some status)"

section \<open>The driver loop as the specification describes it\<close>

text \<open>
  The specification describes the loop by its iterations: iteration \<open>i\<close> first sets the five
  input entries, then evaluates the calibration formula once, and in Monte Carlo mode stores
  the value at index \<open>i\<close> of the samples; the loop is the iterations \<open>0\<close> to
  \<open>numberOfMonteCarloIterations - 1\<close> in this order.  These two definitions follow that
  description, to be compared with \<open>monteCarloLoop\<close>, which follows the code.
\<close>

definition specIteration ::
  "('d, 'w) environment \<Rightarrow> CommandLineArguments \<Rightarrow> nat \<Rightarrow> ('d, 'w) main_state
     \<Rightarrow> ('d, 'w) main_state" where
  "specIteration env arguments i s =
     (let inputsSet = setInputDistributionsViaUxHwCall env (inputDistributions s) (world s);
          evaluated = calculateSensorOutput (arithmetic env) arguments (fst inputsSet)
                        (outputDistributions s)
      in s\<lparr>inputDistributions := fst inputsSet,
           world := snd inputsSet,
           calibratedSensorOutput := fst evaluated,
           outputDistributions := snd evaluated,
           monteCarloOutputSamples :=
             (if isMonteCarloMode (common arguments)
              then map_option (\<lambda>samples. samples [i := fst evaluated])
                     (monteCarloOutputSamples s)
              else monteCarloOutputSamples s)\<rparr>)"

definition specDriverLoop ::
  "('d, 'w) environment \<Rightarrow> CommandLineArguments \<Rightarrow> nat \<Rightarrow> ('d, 'w) main_state
     \<Rightarrow> ('d, 'w) main_state" where
  "specDriverLoop env arguments k s = fold (specIteration env arguments) [0 ..< k] s"

section \<open>A concrete environment\<close>

text \<open>
  To evaluate the program on concrete inputs the external operations are instantiated:
  doubles are real numbers with exact arithmetic (\<^verbatim>\<open>pow\<close> with a natural exponent is a
  power), the sampler returns the midpoint of its interval and counts its calls in the state
  of the world, the clock reads that counter, \<^verbatim>\<open>size_t\<close> has 64 bits, the mean is the
  arithmetic mean of the stored samples, and writing the CSV file succeeds or fails as the
  parameter says.
\<close>

definition exactArithmetic :: "real double_ops" where
  "exactArithmetic =
     \<lparr>dlit = (\<lambda>x. x),
      dadd = (\<lambda>x y. x + y),
      dmul = (\<lambda>x y. x * y),
      ddiv = (\<lambda>x y. x / y),
      dpow = (\<lambda>x e. if 0 \<le> e \<and> e = of_int \<lfloor>e\<rfloor> then x ^ nat \<lfloor>e\<rfloor> else x powr e),
      dofint = of_int,
      du64 = (\<lambda>x. word_of_int \<lfloor>x\<rfloor>)\<rparr>"

definition arithmeticMean :: "real option list option \<Rightarrow> nat \<Rightarrow> real MeanAndVariance" where
  "arithmeticMean samples n =
     \<lparr>mean = sum_list (map (\<lambda>c. case c of None \<Rightarrow> 0 | Some x \<Rightarrow> x)
                        (take n (case samples of None \<Rightarrow> [] | Some xs \<Rightarrow> xs))) / real n,
      variance = 0\<rparr>"

definition exampleEnvironment :: "bool \<Rightarrow> (real, nat) environment" where
  "exampleEnvironment writeFails =
     \<lparr>arithmetic = exactArithmetic,
      UxHwDoubleUniformDist = (\<lambda>low high w. ((low + high) / 2, Suc w)),
      clock = (\<lambda>w. (int w, w)),
      CLOCKS_PER_SEC = 1000000,
      SIZE_MAX = 18446744073709551615,
      getCommandLineArguments = (\<lambda>argv. None),
      calculateMeanAndVarianceOfDoubleSamples = arithmeticMean,
      writeOutputDoubleDistributionsToCSV = (\<lambda>path outputs names n w. (writeFails, w))\<rparr>"


definition exampleArguments ::
  "nat \<Rightarrow> bool \<Rightarrow> nat \<Rightarrow> bool \<Rightarrow> bool \<Rightarrow> bool \<Rightarrow> bool \<Rightarrow> CommandLineArguments" where
  "exampleArguments select monteCarlo iterations timing benchmarking json writeToFile =
     \<lparr>common =
        \<lparr>outputSelect = select,
         isMonteCarloMode = monteCarlo,
         numberOfMonteCarloIterations = iterations,
         isTimingEnabled = timing,
         isBenchmarkingMode = benchmarking,
         isOutputJSONMode = json,
         isWriteToFileEnabled = writeToFile,
         outputFilePath = ''out.csv''\<rparr>\<rparr>"

definition exampleInputs :: "real list" where
  "exampleInputs = [0.03, 293.5, 273.25, 422500, 402500]"



section \<open>Basic facts\<close>

lemmas calibrationConstants =
  kSensorCalibrationConstant1_def kSensorCalibrationConstant2_def
  kSensorCalibrationConstant3_def

lemmas uniformDistBounds =
  kDefaultInputDistributionHxferUniformDistLow_def kDefaultInputDistributionHxferUniformDistHigh_def
  kDefaultInputDistributionTflowUniformDistLow_def kDefaultInputDistributionTflowUniformDistHigh_def
  kDefaultInputDistributionT0UniformDistLow_def kDefaultInputDistributionT0UniformDistHigh_def
  kDefaultInputDistributionPflowUniformDistLow_def kDefaultInputDistributionPflowUniformDistHigh_def
  kDefaultInputDistributionP0UniformDistLow_def kDefaultInputDistributionP0UniformDistHigh_def

lemmas distributionIndices =
  kInputDistributionIndexHxfer_def kInputDistributionIndexTflow_def
  kInputDistributionIndexT0_def kInputDistributionIndexPflow_def
  kInputDistributionIndexP0_def kInputDistributionIndexMax_def
  kOutputDistributionIndexCalibratedMassFlowOutput_def
  kOutputDistributionIndexCalibratedDifferentialPressureOutput_def
  kOutputDistributionIndexMax_def

lemma exactArithmetic_simps:
  "dlit exactArithmetic x = x"
  "dadd exactArithmetic x y = x + y"
  "dmul exactArithmetic x y = x * y"
  "ddiv exactArithmetic x y = x / y"
  "dpow exactArithmetic x 3 = x ^ 3"
  "dpow exactArithmetic x 2 = x ^ 2"
  "dofint exactArithmetic i = of_int i"
  "du64 exactArithmetic x = word_of_int \<lfloor>x\<rfloor>"
  by (simp_all add: exactArithmetic_def)

lemma massFlow_exact:
  "massFlow exactArithmetic h = - 314364.00 * h ^ 3 + 117682.20 * h ^ 2 + 2499.26"
  by (simp add: massFlow_def exactArithmetic_simps calibrationConstants)


lemma exampleArguments_simps:
  "outputSelect (common (exampleArguments a b c d e f g)) = a"
  "isMonteCarloMode (common (exampleArguments a b c d e f g)) = b"
  "numberOfMonteCarloIterations (common (exampleArguments a b c d e f g)) = c"
  "isTimingEnabled (common (exampleArguments a b c d e f g)) = d"
  "isBenchmarkingMode (common (exampleArguments a b c d e f g)) = e"
  "isOutputJSONMode (common (exampleArguments a b c d e f g)) = f"
  "isWriteToFileEnabled (common (exampleArguments a b c d e f g)) = g"
  "outputFilePath (common (exampleArguments a b c d e f g)) = ''out.csv''"
  by (simp_all add: exampleArguments_def)

lemma calculateSensorOutput_cases:
  "calculateSensorOutput ops arguments inputs outputs =
     (let m = massFlow ops (inputs ! 0);
          dp = dmul ops (dmul ops m (ddiv ops (inputs ! 1) (inputs ! 2)))
                 (ddiv ops (inputs ! 4) (inputs ! 3))
      in if outputSelect (common arguments) = 0 then (Some m, outputs [0 := Some m])
         else if outputSelect (common arguments) = 1 then (Some dp, outputs [1 := Some dp])
         else if outputSelect (common arguments) = 2
         then (Some dp, outputs [0 := Some m, 1 := Some dp])
         else (None, outputs))"
  by (simp add: calculateSensorOutput_def Let_def distributionIndices)

lemma exampleInputs_nth:
  "exampleInputs ! 0 = 0.03" "exampleInputs ! 1 = 293.5" "exampleInputs ! 2 = 273.25"
  "exampleInputs ! 3 = 422500" "exampleInputs ! 4 = 402500"
  "exampleInputs ! Suc 0 = 293.5"
  by (simp_all add: exampleInputs_def)

lemma massFlow_example: "massFlow exactArithmetic (3 / 100) = 324585769 / 125000"
  by (simp add: massFlow_exact power2_eq_square power3_eq_cube)

lemma calculateSensorOutput_example:
  "calculateSensorOutput exactArithmetic arguments exampleInputs outputs =
     (if outputSelect (common arguments) = 0
      then (Some (324585769 / 125000), outputs [0 := Some (324585769 / 125000)])
      else if outputSelect (common arguments) = 1
      then (Some (30675627270883 / 11544812500),
            outputs [1 := Some (30675627270883 / 11544812500)])
      else if outputSelect (common arguments) = 2
      then (Some (30675627270883 / 11544812500),
            outputs [0 := Some (324585769 / 125000),
                     1 := Some (30675627270883 / 11544812500)])
      else (None, outputs))"
  by (simp add: calculateSensorOutput_cases exampleInputs_nth massFlow_example
        exactArithmetic_simps Let_def)

lemma exampleEnvironment_simps:
  "arithmetic (exampleEnvironment b) = exactArithmetic"
  "UxHwDoubleUniformDist (exampleEnvironment b) low high w = ((low + high) / 2, Suc w)"
  "clock (exampleEnvironment b) w = (int w, w)"
  "CLOCKS_PER_SEC (exampleEnvironment b) = 1000000"
  "SIZE_MAX (exampleEnvironment b) = 18446744073709551615"
  "calculateMeanAndVarianceOfDoubleSamples (exampleEnvironment b) = arithmeticMean"
  "writeOutputDoubleDistributionsToCSV (exampleEnvironment b) path outputs names n w = (b, w)"
  by (simp_all add: exampleEnvironment_def)

lemma list_update_all5:
  "length xs = 5 \<Longrightarrow> xs [0 := a, Suc 0 := b, 2 := c, 3 := d, 4 := e] = [a, b, c, d, e]"
  by (auto simp: length_Suc_conv numeral_eq_Suc)

section \<open>The calibration formula: results\<close>

text \<open>
  Claim C1.  Whenever the mass flow output is computed (it is selected, or all outputs are),
  the value stored in the mass flow entry of the output array is the third-order polynomial
  \<^verbatim>\<open>-314364.00 * pow(h, 3) + 117682.20 * pow(h, 2) + 2499.26\<close> of the \<^verbatim>\<open>Hxfer\<close> entry \<open>h\<close>
  of the input array, evaluated in the arithmetic of doubles, for every input array.
\<close>

theorem calculateSensorOutput_massFlow_polynomial:
  assumes "outputSelect (common arguments) = kOutputDistributionIndexCalibratedMassFlowOutput
           \<or> outputSelect (common arguments) = kOutputDistributionIndexMax"
      and "length outputs = kOutputDistributionIndexMax"
  shows "snd (calculateSensorOutput ops arguments inputs outputs)
           ! kOutputDistributionIndexCalibratedMassFlowOutput
         = Some (dadd ops
                  (dadd ops
                     (dmul ops (dlit ops (- 314364.00))
                        (dpow ops (inputs ! kInputDistributionIndexHxfer) (dlit ops 3)))
                     (dmul ops (dlit ops 117682.20)
                        (dpow ops (inputs ! kInputDistributionIndexHxfer) (dlit ops 2))))
                  (dlit ops 2499.26))"
  using assms
  by (auto simp: calculateSensorOutput_def Let_def distributionIndices massFlow_def
        calibrationConstants)

theorem calculateSensorOutput_massFlow_polynomial_witness:
  "(outputSelect (common (exampleArguments 0 False 1 False False False False))
      = kOutputDistributionIndexCalibratedMassFlowOutput
    \<or> outputSelect (common (exampleArguments 0 False 1 False False False False))
      = kOutputDistributionIndexMax)
   \<and> length [None, None :: real option] = kOutputDistributionIndexMax
   \<and> snd (calculateSensorOutput exactArithmetic
             (exampleArguments 0 False 1 False False False False) exampleInputs [None, None])
         ! kOutputDistributionIndexCalibratedMassFlowOutput
       = Some (- 314364.00 * 0.03 ^ 3 + 117682.20 * 0.03 ^ 2 + 2499.26)"
  using calculateSensorOutput_massFlow_polynomial
          [of "exampleArguments 0 False 1 False False False False" "[None, None]"
              exactArithmetic exampleInputs]
  by (simp add: exampleArguments_simps distributionIndices exactArithmetic_simps
        exampleInputs_def)

text \<open>
  Claim C2.  Whenever the differential pressure output is computed, the value stored in its
  entry of the output array is \<^verbatim>\<open>m * (Tflow/T0) * (P0/Pflow)\<close>, with \<open>m\<close> the mass flow
  polynomial of the \<^verbatim>\<open>Hxfer\<close> entry.  The code divides without a test, so the equation
  holds for every input array, those with nonzero \<^verbatim>\<open>T0\<close> and \<^verbatim>\<open>Pflow\<close> among them.
\<close>

theorem calculateSensorOutput_differentialPressure_formula:
  assumes "outputSelect (common arguments)
             = kOutputDistributionIndexCalibratedDifferentialPressureOutput
           \<or> outputSelect (common arguments) = kOutputDistributionIndexMax"
      and "length outputs = kOutputDistributionIndexMax"
  shows "snd (calculateSensorOutput ops arguments inputs outputs)
           ! kOutputDistributionIndexCalibratedDifferentialPressureOutput
         = Some (dmul ops
                  (dmul ops (massFlow ops (inputs ! kInputDistributionIndexHxfer))
                     (ddiv ops (inputs ! kInputDistributionIndexTflow)
                               (inputs ! kInputDistributionIndexT0)))
                  (ddiv ops (inputs ! kInputDistributionIndexP0)
                            (inputs ! kInputDistributionIndexPflow)))"
  using assms by (auto simp: calculateSensorOutput_def Let_def distributionIndices)

theorem calculateSensorOutput_differentialPressure_formula_witness:
  "(outputSelect (common (exampleArguments 1 False 1 False False False False))
      = kOutputDistributionIndexCalibratedDifferentialPressureOutput
    \<or> outputSelect (common (exampleArguments 1 False 1 False False False False))
      = kOutputDistributionIndexMax)
   \<and> length [None, None :: real option] = kOutputDistributionIndexMax
   \<and> snd (calculateSensorOutput exactArithmetic
             (exampleArguments 1 False 1 False False False False) exampleInputs [None, None])
         ! kOutputDistributionIndexCalibratedDifferentialPressureOutput
       = Some ((- 314364.00 * 0.03 ^ 3 + 117682.20 * 0.03 ^ 2 + 2499.26)
               * (293.5 / 273.25) * (402500 / 422500))"
  using calculateSensorOutput_differentialPressure_formula
          [of "exampleArguments 1 False 1 False False False False" "[None, None]"
              exactArithmetic exampleInputs]
  by (simp add: exampleArguments_simps distributionIndices exactArithmetic_simps
        exampleInputs_def massFlow_exact)

text \<open>
  Claim C5 says that any two calls with equal \<^verbatim>\<open>outputSelect\<close> and equal input entries
  return equal values.  When \<^verbatim>\<open>outputSelect\<close> is beyond \<^verbatim>\<open>kOutputDistributionIndexMax\<close>
  neither branch assigns \<^verbatim>\<open>calibratedValue\<close>, declared at line 46 without an initialiser
  and returned at line 84: the caller receives the content of unassigned storage.  Here
  \<^verbatim>\<open>outputSelect\<close> is 3; with the same arguments and inputs, the value received is 1 when
  the storage held 1 and 2 when it held 2.
\<close>

theorem calculateSensorOutput_unselected_return_indeterminate:
  "outputSelect (common (exampleArguments 3 False 1 False False False False)) = 3
   \<and> fst (calculateSensorOutput exactArithmetic
            (exampleArguments 3 False 1 False False False False) exampleInputs [None, None])
       = None
   \<and> valueRead 1
        (fst (calculateSensorOutput exactArithmetic
                (exampleArguments 3 False 1 False False False False) exampleInputs
                [None, None]))
     \<noteq> valueRead 2
        (fst (calculateSensorOutput exactArithmetic
                (exampleArguments 3 False 1 False False False False) exampleInputs
                [None, None]))"
  by (simp add: calculateSensorOutput_example exampleArguments_simps valueRead_def)

text \<open>
  Claim C5, amended.  For \<^verbatim>\<open>outputSelect\<close> within \<^verbatim>\<open>OutputDistributionIndex\<close> (at most
  \<^verbatim>\<open>kOutputDistributionIndexMax\<close>) the calibration formula is a deterministic function of
  \<^verbatim>\<open>outputSelect\<close> and the five input entries: two calls that agree on these return the
  same assigned value, whatever their storage held before, and store the same values in the
  entries they write, whatever the other fields of the arguments and the previous contents
  of the output array are.
\<close>

theorem calculateSensorOutput_deterministic:
  assumes "outputSelect (common arguments1) = outputSelect (common arguments2)"
      and "outputSelect (common arguments1) \<le> kOutputDistributionIndexMax"
      and "\<forall>k < kInputDistributionIndexMax. inputs1 ! k = inputs2 ! k"
      and "length outputs1 = kOutputDistributionIndexMax"
      and "length outputs2 = kOutputDistributionIndexMax"
  shows "valueRead indeterminate1 (fst (calculateSensorOutput ops arguments1 inputs1 outputs1))
           = valueRead indeterminate2
               (fst (calculateSensorOutput ops arguments2 inputs2 outputs2))
       \<and> fst (calculateSensorOutput ops arguments1 inputs1 outputs1)
           = fst (calculateSensorOutput ops arguments2 inputs2 outputs2)
       \<and> fst (calculateSensorOutput ops arguments1 inputs1 outputs1) \<noteq> None
       \<and> (outputSelect (common arguments1) = kOutputDistributionIndexCalibratedMassFlowOutput
            \<or> outputSelect (common arguments1) = kOutputDistributionIndexMax
          \<longrightarrow> snd (calculateSensorOutput ops arguments1 inputs1 outputs1)
                 ! kOutputDistributionIndexCalibratedMassFlowOutput
              = snd (calculateSensorOutput ops arguments2 inputs2 outputs2)
                 ! kOutputDistributionIndexCalibratedMassFlowOutput)
       \<and> (outputSelect (common arguments1)
              = kOutputDistributionIndexCalibratedDifferentialPressureOutput
            \<or> outputSelect (common arguments1) = kOutputDistributionIndexMax
          \<longrightarrow> snd (calculateSensorOutput ops arguments1 inputs1 outputs1)
                 ! kOutputDistributionIndexCalibratedDifferentialPressureOutput
              = snd (calculateSensorOutput ops arguments2 inputs2 outputs2)
                 ! kOutputDistributionIndexCalibratedDifferentialPressureOutput)"
proof -
  have eq: "inputs1 ! 0 = inputs2 ! 0" "inputs1 ! 1 = inputs2 ! 1" "inputs1 ! 2 = inputs2 ! 2"
    "inputs1 ! 3 = inputs2 ! 3" "inputs1 ! 4 = inputs2 ! 4"
    using assms(3) by (simp_all add: kInputDistributionIndexMax_def)
  have sel: "outputSelect (common arguments1) = 0 \<or> outputSelect (common arguments1) = 1
             \<or> outputSelect (common arguments1) = 2"
    using assms(2) by (auto simp: kOutputDistributionIndexMax_def)
  show ?thesis
    using assms(1,4,5) eq sel
    by (auto simp: calculateSensorOutput_cases Let_def distributionIndices valueRead_def)
qed

theorem calculateSensorOutput_deterministic_witness:
  "outputSelect (common (exampleArguments 2 False 1 False False False False))
     = outputSelect (common (exampleArguments 2 False 7 True False True True))
   \<and> outputSelect (common (exampleArguments 2 False 1 False False False False))
       \<le> kOutputDistributionIndexMax
   \<and> length [None, None :: real option] = kOutputDistributionIndexMax
   \<and> length [Some 1, Some (2 :: real)] = kOutputDistributionIndexMax
   \<and> valueRead 1 (fst (calculateSensorOutput exactArithmetic
        (exampleArguments 2 False 1 False False False False) exampleInputs [None, None]))
     = valueRead 2 (fst (calculateSensorOutput exactArithmetic
        (exampleArguments 2 False 7 True False True True) exampleInputs [Some 1, Some 2]))
   \<and> calculateSensorOutput exactArithmetic
        (exampleArguments 2 False 1 False False False False) exampleInputs [None, None]
     = calculateSensorOutput exactArithmetic
        (exampleArguments 2 False 7 True False True True) exampleInputs [Some 1, Some 2]
   \<and> fst (calculateSensorOutput exactArithmetic
        (exampleArguments 2 False 1 False False False False) exampleInputs [None, None])
     = Some (30675627270883 / 11544812500)"
  using calculateSensorOutput_deterministic
          [of "exampleArguments 2 False 1 False False False False"
              "exampleArguments 2 False 7 True False True True"
              exampleInputs exampleInputs "[None, None]" "[Some 1, Some 2]" 1 exactArithmetic 2]
  by (simp add: exampleArguments_simps distributionIndices calculateSensorOutput_example)

text \<open>
  Claim C8.  When \<^verbatim>\<open>outputSelect\<close> is \<^verbatim>\<open>kOutputDistributionIndexMax\<close>, the returned value
  is the calibrated differential pressure, the value stored in that entry of the output
  array; the mass flow is stored in its entry of the array and, wherever the two outputs
  differ, is not the returned value.
\<close>

theorem calculateSensorOutput_all_outputs_return:
  assumes "outputSelect (common arguments) = kOutputDistributionIndexMax"
      and "length outputs = kOutputDistributionIndexMax"
  shows "fst (calculateSensorOutput ops arguments inputs outputs)
           = snd (calculateSensorOutput ops arguments inputs outputs)
               ! kOutputDistributionIndexCalibratedDifferentialPressureOutput
       \<and> fst (calculateSensorOutput ops arguments inputs outputs)
           = Some (dmul ops
                    (dmul ops (massFlow ops (inputs ! kInputDistributionIndexHxfer))
                       (ddiv ops (inputs ! kInputDistributionIndexTflow)
                                 (inputs ! kInputDistributionIndexT0)))
                    (ddiv ops (inputs ! kInputDistributionIndexP0)
                              (inputs ! kInputDistributionIndexPflow)))
       \<and> snd (calculateSensorOutput ops arguments inputs outputs)
               ! kOutputDistributionIndexCalibratedMassFlowOutput
           = Some (massFlow ops (inputs ! kInputDistributionIndexHxfer))
       \<and> (snd (calculateSensorOutput ops arguments inputs outputs)
               ! kOutputDistributionIndexCalibratedDifferentialPressureOutput
           \<noteq> snd (calculateSensorOutput ops arguments inputs outputs)
               ! kOutputDistributionIndexCalibratedMassFlowOutput
          \<longrightarrow> fst (calculateSensorOutput ops arguments inputs outputs)
              \<noteq> snd (calculateSensorOutput ops arguments inputs outputs)
               ! kOutputDistributionIndexCalibratedMassFlowOutput)"
  using assms by (auto simp: calculateSensorOutput_def Let_def distributionIndices)

theorem calculateSensorOutput_all_outputs_return_witness:
  "outputSelect (common (exampleArguments 2 False 1 False False False False))
     = kOutputDistributionIndexMax
   \<and> length [None, None :: real option] = kOutputDistributionIndexMax
   \<and> calculateSensorOutput exactArithmetic
        (exampleArguments 2 False 1 False False False False) exampleInputs [None, None]
     = (Some (30675627270883 / 11544812500),
        [Some (324585769 / 125000), Some (30675627270883 / 11544812500)])
   \<and> Some (30675627270883 / 11544812500) \<noteq> Some (324585769 / 125000 :: real)"
  using calculateSensorOutput_all_outputs_return
          [of "exampleArguments 2 False 1 False False False False" "[None, None]"
              exactArithmetic exampleInputs]
  by (simp add: exampleArguments_simps distributionIndices calculateSensorOutput_example)

text \<open>
  Claim C9.  When \<^verbatim>\<open>outputSelect\<close> selects one output, \<^verbatim>\<open>calculateSensorOutput\<close> stores
  into that entry of the output array only and leaves the other entry as it was; the call
  of the CSV writer in \<^verbatim>\<open>main\<close> nevertheless passes the whole array with
  \<^verbatim>\<open>kOutputDistributionIndexMax\<close> as the number of entries.
\<close>

theorem calculateSensorOutput_single_output_frame:
  assumes "length outputs = kOutputDistributionIndexMax"
  shows "(outputSelect (common arguments) = kOutputDistributionIndexCalibratedMassFlowOutput
          \<longrightarrow> snd (calculateSensorOutput ops arguments inputs outputs)
                = outputs [kOutputDistributionIndexCalibratedMassFlowOutput :=
                            Some (massFlow ops (inputs ! kInputDistributionIndexHxfer))]
              \<and> snd (calculateSensorOutput ops arguments inputs outputs)
                  ! kOutputDistributionIndexCalibratedDifferentialPressureOutput
                = outputs ! kOutputDistributionIndexCalibratedDifferentialPressureOutput)
       \<and> (outputSelect (common arguments)
            = kOutputDistributionIndexCalibratedDifferentialPressureOutput
          \<longrightarrow> snd (calculateSensorOutput ops arguments inputs outputs)
                = outputs [kOutputDistributionIndexCalibratedDifferentialPressureOutput :=
                     fst (calculateSensorOutput ops arguments inputs outputs)]
              \<and> fst (calculateSensorOutput ops arguments inputs outputs) \<noteq> None
              \<and> snd (calculateSensorOutput ops arguments inputs outputs)
                  ! kOutputDistributionIndexCalibratedMassFlowOutput
                = outputs ! kOutputDistributionIndexCalibratedMassFlowOutput)
       \<and> (isWriteToFileEnabled (common arguments)
          \<longrightarrow> calls (fst (writeOutputData env arguments s))
              = calls s @
                  [WriteOutputDoubleDistributionsToCSV (outputFilePath (common arguments))
                     (outputDistributions s) outputVariableNames kOutputDistributionIndexMax])"
  using assms
  by (auto simp: calculateSensorOutput_def Let_def distributionIndices writeOutputData_def
           split: prod.splits)

theorem calculateSensorOutput_single_output_frame_witness:
  "length [Some 1, Some (2 :: real)] = kOutputDistributionIndexMax
   \<and> outputSelect (common (exampleArguments 0 False 1 False False False True))
       = kOutputDistributionIndexCalibratedMassFlowOutput
   \<and> snd (calculateSensorOutput exactArithmetic
        (exampleArguments 0 False 1 False False False True) exampleInputs [Some 1, Some 2])
     = [Some (324585769 / 125000), Some 2]
   \<and> outputSelect (common (exampleArguments 1 False 1 False False False True))
       = kOutputDistributionIndexCalibratedDifferentialPressureOutput
   \<and> snd (calculateSensorOutput exactArithmetic
        (exampleArguments 1 False 1 False False False True) exampleInputs [Some 1, Some 2])
     = [Some 1, Some (30675627270883 / 11544812500)]
   \<and> isWriteToFileEnabled (common (exampleArguments 0 False 1 False False False True))
   \<and> calls (fst (writeOutputData (exampleEnvironment False)
        (exampleArguments 0 False 1 False False False True) (initialState exampleInputs 0)))
     = [WriteOutputDoubleDistributionsToCSV ''out.csv'' [None, None]
          [''Calibrated Mass Flow'', ''Calibrated Differential Pressure''] 2]"
  using calculateSensorOutput_single_output_frame
          [of "[Some 1, Some 2]" "exampleArguments 0 False 1 False False False True"
              exactArithmetic exampleInputs "exampleEnvironment False"
              "initialState exampleInputs 0"]
        calculateSensorOutput_single_output_frame
          [of "[Some 1, Some 2]" "exampleArguments 1 False 1 False False False True"
              exactArithmetic exampleInputs "exampleEnvironment False"
              "initialState exampleInputs 0"]
  by (simp add: exampleArguments_simps distributionIndices calculateSensorOutput_example
        writeOutputData_def exampleEnvironment_simps initialState_def outputVariableNames_def
        numeral_2_eq_2)

section \<open>Setting the inputs: results\<close>

text \<open>
  Claim C6.  A call of \<^verbatim>\<open>setInputDistributionsViaUxHwCall\<close> stores into each of the five
  entries of the input array (\<^verbatim>\<open>Hxfer\<close>, \<^verbatim>\<open>Tflow\<close>, \<^verbatim>\<open>T0\<close>, \<^verbatim>\<open>Pflow\<close>, \<^verbatim>\<open>P0\<close>, in
  this order) the value that \<^verbatim>\<open>UxHwDoubleUniformDist\<close> returns for the low and high bounds
  configured for that input, and each low bound is strictly less than its high bound.
\<close>

theorem setInputDistributionsViaUxHwCall_samples:
  assumes "length inputs = kInputDistributionIndexMax"
  shows "(let ops = arithmetic env;
              s0 = UxHwDoubleUniformDist env
                     (dlit ops kDefaultInputDistributionHxferUniformDistLow)
                     (dlit ops kDefaultInputDistributionHxferUniformDistHigh) w;
              s1 = UxHwDoubleUniformDist env
                     (dlit ops kDefaultInputDistributionTflowUniformDistLow)
                     (dlit ops kDefaultInputDistributionTflowUniformDistHigh) (snd s0);
              s2 = UxHwDoubleUniformDist env
                     (dlit ops kDefaultInputDistributionT0UniformDistLow)
                     (dlit ops kDefaultInputDistributionT0UniformDistHigh) (snd s1);
              s3 = UxHwDoubleUniformDist env
                     (dlit ops kDefaultInputDistributionPflowUniformDistLow)
                     (dlit ops kDefaultInputDistributionPflowUniformDistHigh) (snd s2);
              s4 = UxHwDoubleUniformDist env
                     (dlit ops kDefaultInputDistributionP0UniformDistLow)
                     (dlit ops kDefaultInputDistributionP0UniformDistHigh) (snd s3)
          in setInputDistributionsViaUxHwCall env inputs w
               = ([fst s0, fst s1, fst s2, fst s3, fst s4], snd s4))
       \<and> kDefaultInputDistributionHxferUniformDistLow < kDefaultInputDistributionHxferUniformDistHigh
       \<and> kDefaultInputDistributionTflowUniformDistLow < kDefaultInputDistributionTflowUniformDistHigh
       \<and> kDefaultInputDistributionT0UniformDistLow < kDefaultInputDistributionT0UniformDistHigh
       \<and> kDefaultInputDistributionPflowUniformDistLow < kDefaultInputDistributionPflowUniformDistHigh
       \<and> kDefaultInputDistributionP0UniformDistLow < kDefaultInputDistributionP0UniformDistHigh"
proof -
  have "length inputs = 5"
    using assms by (simp add: kInputDistributionIndexMax_def)
  then show ?thesis
    by (simp add: setInputDistributionsViaUxHwCall_def Let_def distributionIndices
          list_update_all5 uniformDistBounds split: prod.splits)
qed

theorem setInputDistributionsViaUxHwCall_samples_witness:
  "length [0, 0, 0, 0, 0 :: real] = kInputDistributionIndexMax
   \<and> setInputDistributionsViaUxHwCall (exampleEnvironment False) [0, 0, 0, 0, 0] 0
     = ([0.03, 293.5, 273.25, 422500, 402500], 5)"
  using setInputDistributionsViaUxHwCall_samples
          [of "[0, 0, 0, 0, 0]" "exampleEnvironment False" 0]
  by (simp add: distributionIndices exampleEnvironment_simps exactArithmetic_simps
        uniformDistBounds Let_def)

section \<open>The main program: the loop\<close>

declare monteCarloLoop.simps [simp del]

lemma specIteration_fields:
  "calls (specIteration env arguments i s) = calls s"
  "cpuTimeUsedSeconds (specIteration env arguments i s) = cpuTimeUsedSeconds s"
  "start (specIteration env arguments i s) = start s"
  "endClock (specIteration env arguments i s) = endClock s"
  "meanAndVariance (specIteration env arguments i s) = meanAndVariance s"
  by (simp_all add: specIteration_def Let_def)

lemma specIteration_samples:
  "monteCarloOutputSamples (specIteration env arguments i s) =
     (if isMonteCarloMode (common arguments)
      then map_option
             (\<lambda>samples. samples [i := calibratedSensorOutput (specIteration env arguments i s)])
             (monteCarloOutputSamples s)
      else monteCarloOutputSamples s)"
  by (simp add: specIteration_def Let_def)

lemma loopBody_specIteration:
  assumes "isMonteCarloMode (common arguments) \<longrightarrow>
             (\<exists>samples. monteCarloOutputSamples s = Some samples \<and> i < length samples)"
  shows "loopBody env arguments i s = Inr (specIteration env arguments i s)"
  using assms
  by (auto simp: loopBody_def specIteration_def Let_def split: prod.splits)

lemma specDriverLoop_0: "specDriverLoop env arguments 0 s = s"
  by (simp add: specDriverLoop_def)

lemma specDriverLoop_Suc:
  "specDriverLoop env arguments (Suc k) s =
     specIteration env arguments k (specDriverLoop env arguments k s)"
  by (simp add: specDriverLoop_def)

lemma specDriverLoop_fields:
  "calls (specDriverLoop env arguments k s) = calls s"
  "cpuTimeUsedSeconds (specDriverLoop env arguments k s) = cpuTimeUsedSeconds s"
  "start (specDriverLoop env arguments k s) = start s"
  "endClock (specDriverLoop env arguments k s) = endClock s"
  "meanAndVariance (specDriverLoop env arguments k s) = meanAndVariance s"
  by (induction k; simp add: specDriverLoop_0 specDriverLoop_Suc specIteration_fields)+


lemma specDriverLoop_samples:
  assumes "isMonteCarloMode (common arguments)"
      and "monteCarloOutputSamples s = Some samples"
      and "k \<le> length samples"
  shows "monteCarloOutputSamples (specDriverLoop env arguments k s) =
           Some (map (\<lambda>i. calibratedSensorOutput (specDriverLoop env arguments (Suc i) s))
                   [0 ..< k]
                 @ drop k samples)"
  using assms(3)
proof (induction k)
  case 0
  then show ?case by (simp add: specDriverLoop_0 assms(2))
next
  case (Suc k)
  then have IH: "monteCarloOutputSamples (specDriverLoop env arguments k s) =
           Some (map (\<lambda>i. calibratedSensorOutput (specDriverLoop env arguments (Suc i) s))
                   [0 ..< k] @ drop k samples)"
    by simp
  from Suc.prems have "k < length samples" by simp
  then have "drop k samples = samples ! k # drop (Suc k) samples"
    by (simp add: Cons_nth_drop_Suc)
  then show ?case
    using assms(1) IH
    by (simp add: specDriverLoop_Suc [of env arguments k] specIteration_samples
          list_update_append)
qed

lemma monteCarloLoop_from:
  assumes "isMonteCarloMode (common arguments) \<longrightarrow>
             (\<exists>samples. monteCarloOutputSamples s0 = Some samples \<and>
                numberOfMonteCarloIterations (common arguments) \<le> length samples)"
      and "i \<le> numberOfMonteCarloIterations (common arguments)"
  shows "monteCarloLoop env arguments i (specDriverLoop env arguments i s0) =
           Inr (specDriverLoop env arguments
                  (numberOfMonteCarloIterations (common arguments)) s0)"
  using assms(2)
proof (induction "numberOfMonteCarloIterations (common arguments) - i" arbitrary: i)
  case 0
  then show ?case by (simp add: monteCarloLoop.simps [of env arguments i])
next
  case (Suc d)
  then have lt: "i < numberOfMonteCarloIterations (common arguments)" by simp
  have buf: "isMonteCarloMode (common arguments) \<longrightarrow>
      (\<exists>samples. monteCarloOutputSamples (specDriverLoop env arguments i s0) = Some samples
         \<and> i < length samples)"
  proof
    assume mc: "isMonteCarloMode (common arguments)"
    with assms(1) obtain samples where s: "monteCarloOutputSamples s0 = Some samples"
      "numberOfMonteCarloIterations (common arguments) \<le> length samples" by blast
    with lt have "i \<le> length samples" by simp
    from specDriverLoop_samples [OF mc s(1) this, of env] s(2) lt
    show "\<exists>samples. monteCarloOutputSamples (specDriverLoop env arguments i s0) = Some samples
         \<and> i < length samples" by simp
  qed
  have step: "loopBody env arguments i (specDriverLoop env arguments i s0) =
      Inr (specDriverLoop env arguments (Suc i) s0)"
    using loopBody_specIteration [OF buf] by (simp add: specDriverLoop_Suc)
  have "d = numberOfMonteCarloIterations (common arguments) - Suc i" using Suc(2) by simp
  from Suc(1) [OF this] lt
  have "monteCarloLoop env arguments (Suc i) (specDriverLoop env arguments (Suc i) s0) =
          Inr (specDriverLoop env arguments
                 (numberOfMonteCarloIterations (common arguments)) s0)" by simp
  with lt step show ?case by (simp add: monteCarloLoop.simps [of env arguments i])
qed

text \<open>
  When the byte count does not wrap around, the block has one cell for each iteration.
\<close>

lemma allocation_fits:
  assumes "n * sizeofDouble \<le> SIZE_MAX env"
  shows "(n * sizeofDouble) mod (SIZE_MAX env + 1) = n * sizeofDouble"
    and "((n * sizeofDouble) mod (SIZE_MAX env + 1)) div sizeofDouble = n"
  using assms by (simp_all add: sizeofDouble_def)

lemma stateBeforeLoop_allocation:
  "monteCarloOutputSamples (stateBeforeLoop env arguments inputs0 w) =
     (if isMonteCarloMode (common arguments)
      then Some (replicate
                   (((numberOfMonteCarloIterations (common arguments) * sizeofDouble)
                       mod (SIZE_MAX env + 1)) div sizeofDouble) None)
      else None)"
  "calls (stateBeforeLoop env arguments inputs0 w) =
     (if isMonteCarloMode (common arguments)
      then [CheckedMalloc ((numberOfMonteCarloIterations (common arguments) * sizeofDouble)
                             mod (SIZE_MAX env + 1))]
      else [])"
  by (simp_all add: stateBeforeLoop_def startTiming_def allocateSamples_def initialState_def
        Let_def split: prod.splits)

lemma stateBeforeLoop_fits:
  assumes "isMonteCarloMode (common arguments) \<longrightarrow>
             numberOfMonteCarloIterations (common arguments) * sizeofDouble \<le> SIZE_MAX env"
  shows "monteCarloOutputSamples (stateBeforeLoop env arguments inputs0 w) =
           (if isMonteCarloMode (common arguments)
            then Some (replicate (numberOfMonteCarloIterations (common arguments)) None)
            else None)"
    and "calls (stateBeforeLoop env arguments inputs0 w) =
           (if isMonteCarloMode (common arguments)
            then [CheckedMalloc (numberOfMonteCarloIterations (common arguments) * sizeofDouble)]
            else [])"
  using assms allocation_fits [of "numberOfMonteCarloIterations (common arguments)" env]
  by (auto simp: stateBeforeLoop_allocation)

lemma stateBeforeLoop_fields:
  "cpuTimeUsedSeconds (stateBeforeLoop env arguments inputs0 w) = None"
  "calibratedSensorOutput (stateBeforeLoop env arguments inputs0 w) = None"
  "outputDistributions (stateBeforeLoop env arguments inputs0 w) =
     replicate kOutputDistributionIndexMax None"
  "start (stateBeforeLoop env arguments inputs0 w) =
     (if isTimingEnabled (common arguments) \<or> isBenchmarkingMode (common arguments)
      then Some (fst (clock env w)) else None)"
  by (simp_all add: stateBeforeLoop_def startTiming_def allocateSamples_def initialState_def
        Let_def split: prod.splits)

lemma aggregateSamples_fields:
  "monteCarloOutputSamples (aggregateSamples env arguments s) = monteCarloOutputSamples s"
  "calls (aggregateSamples env arguments s) = calls s"
  "cpuTimeUsedSeconds (aggregateSamples env arguments s) = cpuTimeUsedSeconds s"
  "start (aggregateSamples env arguments s) = start s"
  "outputDistributions (aggregateSamples env arguments s) = outputDistributions s"
  "inputDistributions (aggregateSamples env arguments s) = inputDistributions s"
  "calibratedSensorOutput (aggregateSamples env arguments s) =
     (if isMonteCarloMode (common arguments)
      then Some (mean (calculateMeanAndVarianceOfDoubleSamples env (monteCarloOutputSamples s)
                         (numberOfMonteCarloIterations (common arguments))))
      else calibratedSensorOutput s)"
  by (simp_all add: aggregateSamples_def Let_def)

lemma stopTiming_fields:
  "monteCarloOutputSamples (stopTiming env arguments s) = monteCarloOutputSamples s"
  "calls (stopTiming env arguments s) = calls s"
  "calibratedSensorOutput (stopTiming env arguments s) = calibratedSensorOutput s"
  "outputDistributions (stopTiming env arguments s) = outputDistributions s"
  "inputDistributions (stopTiming env arguments s) = inputDistributions s"
  "cpuTimeUsedSeconds (stopTiming env arguments s) =
     (if isTimingEnabled (common arguments) \<or> isBenchmarkingMode (common arguments)
      then map_option
             (\<lambda>t0. ddiv (arithmetic env)
                      (dofint (arithmetic env) (fst (clock env (world s)) - t0))
                      (dofint (arithmetic env) (CLOCKS_PER_SEC env)))
             (start s)
      else cpuTimeUsedSeconds s)"
  by (simp_all add: stopTiming_def Let_def split: prod.splits)

lemma monteCarloLoop_stateBeforeLoop:
  assumes "isMonteCarloMode (common arguments) \<longrightarrow>
             numberOfMonteCarloIterations (common arguments) * sizeofDouble \<le> SIZE_MAX env"
  shows "monteCarloLoop env arguments 0 (stateBeforeLoop env arguments inputs0 w) =
     Inr (specDriverLoop env arguments (numberOfMonteCarloIterations (common arguments))
            (stateBeforeLoop env arguments inputs0 w))"
  using monteCarloLoop_from [of arguments "stateBeforeLoop env arguments inputs0 w" 0 env]
  by (simp add: stateBeforeLoop_fits [OF assms] specDriverLoop_0)


lemma computePhase_eq:
  assumes "isMonteCarloMode (common arguments) \<longrightarrow>
             numberOfMonteCarloIterations (common arguments) * sizeofDouble \<le> SIZE_MAX env"
  shows "computePhase env arguments inputs0 w =
     Inr (stopTiming env arguments
            (aggregateSamples env arguments
               (specDriverLoop env arguments (numberOfMonteCarloIterations (common arguments))
                  (stateBeforeLoop env arguments inputs0 w))))"
  by (simp add: computePhase_def monteCarloLoop_stateBeforeLoop [OF assms])


lemma setInputDistributionsViaUxHwCall_example:
  "length inputs = 5 \<Longrightarrow>
   setInputDistributionsViaUxHwCall (exampleEnvironment b) inputs w = (exampleInputs, w + 5)"
  by (simp add: setInputDistributionsViaUxHwCall_def Let_def distributionIndices
        list_update_all5 uniformDistBounds exampleEnvironment_simps exactArithmetic_simps
        exampleInputs_def)

lemma length_exampleInputs: "length exampleInputs = 5"
  by (simp add: exampleInputs_def)

lemmas evaluateMain =
  mainBody_def computePhase_eq reportPhase_def callsMade_def exitStatus_def
  stateBeforeLoop_def startTiming_def allocateSamples_def initialState_def
  specDriverLoop_0 specDriverLoop_Suc specIteration_def
  aggregateSamples_def stopTiming_def cpuTimeUsedMicroseconds_def
  printBenchmarking_def printResults_def printTiming_def writeOutputData_def saveAndFree_def
  setInputDistributionsViaUxHwCall_example length_exampleInputs calculateSensorOutput_example
  exampleArguments_simps exampleEnvironment_simps exactArithmetic_simps arithmeticMean_def
  outputVariableNames_def unitsOfMeasurement_def kOutputDistributionIndexMax_def
  sizeofDouble_def numeral_2_eq_2 Let_def


lemma reportPhase_fields:
  assumes "reportPhase env arguments s0 = Inr (s, status)"
  shows "monteCarloOutputSamples s = monteCarloOutputSamples s0"
    and "cpuTimeUsedSeconds s = cpuTimeUsedSeconds s0"
    and "calibratedSensorOutput s = calibratedSensorOutput s0"
    and "outputDistributions s = outputDistributions s0"
  using assms
  by (auto simp: reportPhase_def printResults_def printTiming_def writeOutputData_def
        saveAndFree_def printBenchmarking_def Let_def
        split: if_splits sum.splits prod.splits)

lemma reportPhase_saves_and_frees:
  assumes "isMonteCarloMode (common arguments)"
      and "reportPhase env arguments s0 = Inr (s, ExitZero)"
  shows "\<exists>before. calls s = before @
           [SaveMonteCarloDoubleDataToDataDotOutFile (monteCarloOutputSamples s0)
              (cpuTimeUsedMicroseconds (arithmetic env) (cpuTimeUsedSeconds s0))
              (numberOfMonteCarloIterations (common arguments)),
            Free (monteCarloOutputSamples s0)]"
  using assms
  by (auto simp: reportPhase_def printResults_def printTiming_def writeOutputData_def
        saveAndFree_def printBenchmarking_def Let_def
        split: if_splits sum.splits prod.splits)



lemma mainBody_computePhase:
  assumes "isMonteCarloMode (common arguments) \<longrightarrow>
             numberOfMonteCarloIterations (common arguments) * sizeofDouble \<le> SIZE_MAX env"
  shows "mainBody env arguments inputs0 w =
     reportPhase env arguments
       (stopTiming env arguments
          (aggregateSamples env arguments
             (specDriverLoop env arguments (numberOfMonteCarloIterations (common arguments))
                (stateBeforeLoop env arguments inputs0 w))))"
  by (simp add: mainBody_def computePhase_eq [OF assms])

lemma callsMade_Inr:
  "exitStatus r = Some status \<Longrightarrow> \<exists>s. r = Inr (s, status) \<and> callsMade r = calls s"
  by (auto simp: exitStatus_def callsMade_def split: sum.splits)

lemma saved_time_unassigned_without_timing:
  assumes "isMonteCarloMode (common arguments)"
      and "\<not> isTimingEnabled (common arguments)"
      and "\<not> isBenchmarkingMode (common arguments)"
      and "exitStatus (mainBody env arguments inputs0 w) = Some ExitZero"
      and "numberOfMonteCarloIterations (common arguments) * sizeofDouble \<le> SIZE_MAX env"
  shows "\<exists>before samples. callsMade (mainBody env arguments inputs0 w) = before @
           [SaveMonteCarloDoubleDataToDataDotOutFile samples None
              (numberOfMonteCarloIterations (common arguments)),
            Free samples]"
proof -
  let ?s0 = "stopTiming env arguments
          (aggregateSamples env arguments
             (specDriverLoop env arguments (numberOfMonteCarloIterations (common arguments))
                (stateBeforeLoop env arguments inputs0 w)))"
  from callsMade_Inr [OF assms(4)] obtain s where
    s: "mainBody env arguments inputs0 w = Inr (s, ExitZero)"
       "callsMade (mainBody env arguments inputs0 w) = calls s" by blast
  have "cpuTimeUsedSeconds ?s0 = None"
    using assms(2,3)
    by (simp add: stopTiming_fields aggregateSamples_fields specDriverLoop_fields
          stateBeforeLoop_fields)
  with reportPhase_saves_and_frees [OF assms(1), of env ?s0 s] s assms(5)
  show ?thesis
    by (auto simp: mainBody_computePhase cpuTimeUsedMicroseconds_def)
qed

text \<open>
  With the mass flow alone selected, the differential pressure entry of the output array is
  never stored into: it is still unassigned when the computation ends, and this is the array
  passed to the CSV writer.
\<close>

lemma specDriverLoop_unselected_entry:
  assumes "outputSelect (common arguments) = kOutputDistributionIndexCalibratedMassFlowOutput"
  shows "outputDistributions (specDriverLoop env arguments k s)
           ! kOutputDistributionIndexCalibratedDifferentialPressureOutput
         = outputDistributions s
           ! kOutputDistributionIndexCalibratedDifferentialPressureOutput"
  using assms
  by (induction k)
     (simp_all add: specDriverLoop_0 specDriverLoop_Suc specIteration_def Let_def
        calculateSensorOutput_cases distributionIndices)

lemma computePhase_unselected_entry:
  assumes "outputSelect (common arguments) = kOutputDistributionIndexCalibratedMassFlowOutput"
      and "isMonteCarloMode (common arguments) \<longrightarrow>
             numberOfMonteCarloIterations (common arguments) * sizeofDouble \<le> SIZE_MAX env"
  shows "\<exists>s. computePhase env arguments inputs0 w = Inr s
           \<and> outputDistributions s
               ! kOutputDistributionIndexCalibratedDifferentialPressureOutput = None"
  using specDriverLoop_unselected_entry
          [OF assms(1), of env _ "stateBeforeLoop env arguments inputs0 w"]
  by (simp add: computePhase_eq [OF assms(2)] stopTiming_fields aggregateSamples_fields
        stateBeforeLoop_fields distributionIndices)













section \<open>The main program: results\<close>











text \<open>
  Claim C10 says that in Monte Carlo mode \<^verbatim>\<open>cpuTimeUsedSeconds\<close> is assigned before
  line 283 converts it to microseconds and passes it to
  \<^verbatim>\<open>saveMonteCarloDoubleDataToDataDotOutFile\<close>, whatever the timing and benchmarking flags
  are.  The code assigns it at line 203 only when one of the two flags is set.  Here the run
  is in Monte Carlo mode with both flags off: the variable is still unassigned at the end,
  and the time passed to the call is the value of an unassigned variable (\<open>None\<close>).
\<close>

theorem cpuTimeUsedSeconds_unassigned_at_save:
  "isMonteCarloMode (common (exampleArguments 0 True 2 False False False False))
   \<and> \<not> isTimingEnabled (common (exampleArguments 0 True 2 False False False False))
   \<and> \<not> isBenchmarkingMode (common (exampleArguments 0 True 2 False False False False))
   \<and> mainBody (exampleEnvironment False) (exampleArguments 0 True 2 False False False False)
        exampleInputs 0 =
      Inr (\<lparr>calibratedSensorOutput = Some (324585769 / 125000),
            monteCarloOutputSamples =
              Some [Some (324585769 / 125000), Some (324585769 / 125000)],
            start = None, endClock = None, cpuTimeUsedSeconds = None,
            inputDistributions = exampleInputs,
            outputDistributions = [Some (324585769 / 125000), None],
            meanAndVariance = Some \<lparr>mean = 324585769 / 125000, variance = 0\<rparr>,
            world = 10,
            calls =
              [CheckedMalloc 16,
               PrintCalibratedValueAndProbabilities (Some (324585769 / 125000))
                 ''Calibrated Mass Flow'' ''sccm'',
               SaveMonteCarloDoubleDataToDataDotOutFile
                 (Some [Some (324585769 / 125000), Some (324585769 / 125000)]) None 2,
               Free (Some [Some (324585769 / 125000), Some (324585769 / 125000)])]\<rparr>,
           ExitZero)"
  by (simp add: evaluateMain)

end
